theory Spec2Isabelle
  imports Complex_Main "HOL-Library.Word"
begin

section \<open>The cancellation wizard and its backend route\<close>

text \<open>
  The development embeds two parts of the repository:
  \<^item> \<^verbatim>\<open>components/cancellation-flow.tsx\<close>: the flow state, the handlers that the
    wizard's controls call, and the controls themselves (which handler a control calls,
    at which step it is rendered and when it is disabled);
  \<^item> \<^verbatim>\<open>app/api/cancellation/route.ts\<close>: \<^verbatim>\<open>getOrAssignVariant\<close> and the
    \<^verbatim>\<open>POST\<close> handler, over an explicit store.
\<close>

subsection \<open>JavaScript strings and values\<close>

text \<open>
  A JavaScript string is a sequence of UTF-16 code units, and \<^verbatim>\<open>.length\<close> counts code
  units. \<open>js\<close> writes an ASCII literal of the source as such a sequence.
\<close>

type_synonym jsstring = "16 word list"

definition js :: "string \<Rightarrow> jsstring" where
  "js s = map (\<lambda>c. of_nat (of_char c)) s"

text \<open>
  \<^verbatim>\<open>String.prototype.trim\<close> removes white space and line terminators from both ends:
  TAB, LF, VT, FF, CR, SP, NBSP, U+1680, U+2000 to U+200A, U+2028, U+2029, U+202F,
  U+205F, U+3000 and U+FEFF.
\<close>

definition isWhiteSpace :: "16 word \<Rightarrow> bool" where
  "isWhiteSpace c \<longleftrightarrow>
     c \<in> set [0x09, 0x0A, 0x0B, 0x0C, 0x0D, 0x20, 0xA0, 0x1680,
              0x2000, 0x2001, 0x2002, 0x2003, 0x2004, 0x2005, 0x2006, 0x2007,
              0x2008, 0x2009, 0x200A, 0x2028, 0x2029, 0x202F, 0x205F, 0x3000, 0xFEFF]"

definition trim :: "jsstring \<Rightarrow> jsstring" where
  "trim s = rev (dropWhile isWhiteSpace (rev (dropWhile isWhiteSpace s)))"

text \<open>
  A field of type \<^verbatim>\<open>string | null\<close> is a \<open>jsstring option\<close>; it is truthy when it is
  neither \<^verbatim>\<open>null\<close> nor the empty string. In a template literal \<^verbatim>\<open>null\<close> prints as
  the four letters \<^verbatim>\<open>null\<close>.
\<close>

definition truthy_string :: "jsstring option \<Rightarrow> bool" where
  "truthy_string x = (case x of None \<Rightarrow> False | Some t \<Rightarrow> t \<noteq> [])"

definition template_string :: "jsstring option \<Rightarrow> jsstring" where
  "template_string x = (case x of None \<Rightarrow> js ''null'' | Some t \<Rightarrow> t)"

subsection \<open>The flow state\<close>

text \<open>
  \<^verbatim>\<open>FlowStep\<close> has nineteen members in the source. The last constructor below is not one
  of them: it stands for a run-time value of the \<^verbatim>\<open>step\<close> field that is no flow step,
  namely the member of \<^verbatim>\<open>Object.prototype\<close> with the given name, which a property read
  on an object literal can return (see \<open>stepMap_get\<close>).
\<close>

datatype FlowStep =
    Job_question
  | Survey
  | Feedback
  | Congratulations
  | Visa_support
  | Visa_yes
  | Visa_no
  | Success
  | Success_alt
  | Retention_offer
  | Retention_accepted
  | Retention_survey
  | Retention_reason
  | Retention_price
  | Retention_platform
  | Retention_jobs
  | Retention_move
  | Retention_other
  | Retention_final
  | Not_a_step jsstring

record SurveyData =
  foundJobWithMM :: "bool option"
  rolesApplied :: "jsstring option"
  companiesEmailed :: "jsstring option"
  companiesInterviewed :: "jsstring option"

record RetentionData =
  rolesApplied_r :: "jsstring option"
  companiesEmailed_r :: "jsstring option"
  companiesInterviewed_r :: "jsstring option"
  cancellationReason :: "jsstring option"
  maxPrice :: jsstring
  reasonFeedback :: jsstring

record FlowState =
  step :: FlowStep
  hasJob :: "bool option"
  surveyData :: SurveyData
  feedback :: jsstring
  hasLawyer :: "bool option"
  visaType :: jsstring
  completedSteps :: nat
  retentionData :: RetentionData

definition MIN_FEEDBACK_LENGTH :: nat where
  "MIN_FEEDBACK_LENGTH = 25"

definition CANCELLATION_REASONS :: "jsstring list" where
  "CANCELLATION_REASONS =
     [js ''Too expensive'', js ''Platform not helpful'', js ''Not enough relevant jobs'',
      js ''Decided not to move'', js ''Other'']"

definition initialState :: FlowState where
  "initialState =
     \<lparr>step = Job_question,
      hasJob = None,
      surveyData = \<lparr>foundJobWithMM = None, rolesApplied = None,
                    companiesEmailed = None, companiesInterviewed = None\<rparr>,
      feedback = [],
      hasLawyer = None,
      visaType = [],
      completedSteps = 0,
      retentionData = \<lparr>rolesApplied_r = None, companiesEmailed_r = None,
                       companiesInterviewed_r = None, cancellationReason = None,
                       maxPrice = [], reasonFeedback = []\<rparr>\<rparr>"

subsection \<open>Validation predicates\<close>

definition isSurveyValid :: "FlowState \<Rightarrow> bool" where
  "isSurveyValid s \<longleftrightarrow>
     foundJobWithMM (surveyData s) \<noteq> None \<and>
     truthy_string (rolesApplied (surveyData s)) \<and>
     truthy_string (companiesEmailed (surveyData s)) \<and>
     truthy_string (companiesInterviewed (surveyData s))"

definition isRetentionSurveyValid :: "FlowState \<Rightarrow> bool" where
  "isRetentionSurveyValid s \<longleftrightarrow>
     truthy_string (rolesApplied_r (retentionData s)) \<and>
     truthy_string (companiesEmailed_r (retentionData s)) \<and>
     truthy_string (companiesInterviewed_r (retentionData s))"

definition isFeedbackValid :: "FlowState \<Rightarrow> bool" where
  "isFeedbackValid s \<longleftrightarrow> length (feedback s) \<ge> MIN_FEEDBACK_LENGTH"

definition isReasonFeedbackValid :: "FlowState \<Rightarrow> bool" where
  "isReasonFeedbackValid s \<longleftrightarrow>
     length (reasonFeedback (retentionData s)) \<ge> MIN_FEEDBACK_LENGTH"

subsection \<open>Handlers\<close>

text \<open>
  A handler replaces the flow state and may call \<^verbatim>\<open>submitCancellation\<close>, which posts
  one report and never feeds anything back. A handler is therefore a function from the
  state to the new state and the list of reports it dispatched. One user event is
  handled at a time, so the state a handler closes over (\<^verbatim>\<open>flowState\<close>) is the state
  its update function receives (\<^verbatim>\<open>prev\<close>).
\<close>

record Submission =
  accepted_downsell :: bool
  reason :: jsstring

type_synonym handled = "FlowState \<times> Submission list"

definition handleJobResponse :: "bool \<Rightarrow> FlowState \<Rightarrow> handled" where
  "handleJobResponse b s =
     (s\<lparr>hasJob := Some b, step := (if b then Survey else Retention_offer)\<rparr>, [])"

definition handleSurveySubmit :: "FlowState \<Rightarrow> handled" where
  "handleSurveySubmit s = (s\<lparr>step := Feedback, completedSteps := 1\<rparr>, [])"

definition handleFeedbackSubmit :: "FlowState \<Rightarrow> handled" where
  "handleFeedbackSubmit s = (s\<lparr>step := Congratulations, completedSteps := 2\<rparr>, [])"

definition handleCongratulationsNext :: "FlowState \<Rightarrow> handled" where
  "handleCongratulationsNext s = (s\<lparr>step := Visa_support, completedSteps := 3\<rparr>, [])"

definition handleVisaSupportResponse :: "bool \<Rightarrow> FlowState \<Rightarrow> handled" where
  "handleVisaSupportResponse b s =
     (s\<lparr>hasLawyer := Some b, step := (if b then Visa_yes else Visa_no)\<rparr>, [])"

definition handleVisaDetailsSubmit :: "FlowState \<Rightarrow> handled" where
  "handleVisaDetailsSubmit s =
     (s\<lparr>step := (if hasLawyer s = Some True then Success else Success_alt)\<rparr>,
      [\<lparr>accepted_downsell = False, reason = js ''Completed visa support flow''\<rparr>])"

definition handleRetentionOffer :: "bool \<Rightarrow> FlowState \<Rightarrow> handled" where
  "handleRetentionOffer b s =
     (s\<lparr>step := (if b then Retention_accepted else Retention_survey),
        completedSteps := (if b then 0 else 1)\<rparr>,
      if b then [\<lparr>accepted_downsell = True, reason = js ''Accepted retention offer''\<rparr>]
      else [])"

definition handleRetentionSurveySubmit :: "FlowState \<Rightarrow> handled" where
  "handleRetentionSurveySubmit s = (s\<lparr>step := Retention_reason, completedSteps := 2\<rparr>, [])"

text \<open>
  \<^verbatim>\<open>stepMap\<close> is an object literal with five own properties. A property read
  \<^verbatim>\<open>stepMap[reason]\<close> looks at the own properties first and then at the prototype,
  \<^verbatim>\<open>Object.prototype\<close>, whose members are functions (and, for \<^verbatim>\<open>__proto__\<close>, an
  object): all truthy. \<open>None\<close> is \<^verbatim>\<open>undefined\<close>.
\<close>

definition stepMap :: "(jsstring \<times> FlowStep) list" where
  "stepMap =
     [(js ''Too expensive'', Retention_price),
      (js ''Platform not helpful'', Retention_platform),
      (js ''Not enough relevant jobs'', Retention_jobs),
      (js ''Decided not to move'', Retention_move),
      (js ''Other'', Retention_other)]"

definition Object_prototype :: "jsstring list" where
  "Object_prototype =
     [js ''constructor'', js ''__defineGetter__'', js ''__defineSetter__'',
      js ''hasOwnProperty'', js ''__lookupGetter__'', js ''__lookupSetter__'',
      js ''isPrototypeOf'', js ''propertyIsEnumerable'', js ''toString'',
      js ''valueOf'', js ''__proto__'', js ''toLocaleString'']"

definition stepMap_get :: "jsstring \<Rightarrow> FlowStep option" where
  "stepMap_get k =
     (case map_of stepMap k of
        Some st \<Rightarrow> Some st
      | None \<Rightarrow> if k \<in> set Object_prototype then Some (Not_a_step k) else None)"

definition handleRetentionReasonSubmit :: "FlowState \<Rightarrow> handled" where
  "handleRetentionReasonSubmit s =
     (let reason = cancellationReason (retentionData s);
          nextStep =
            (case reason of
               None \<Rightarrow> Retention_final
             | Some r \<Rightarrow>
                 if r = [] then Retention_final
                 else (case stepMap_get r of None \<Rightarrow> Retention_final | Some st \<Rightarrow> st))
      in (s\<lparr>step := nextStep, completedSteps := 3\<rparr>, []))"

definition handleReasonFeedbackSubmit :: "FlowState \<Rightarrow> handled" where
  "handleReasonFeedbackSubmit s =
     (s\<lparr>step := Retention_final, completedSteps := 3\<rparr>,
      [\<lparr>accepted_downsell = False,
        reason = template_string (cancellationReason (retentionData s)) @ js '': '' @
                 reasonFeedback (retentionData s)\<rparr>])"

definition handleRetentionPriceSubmit :: "FlowState \<Rightarrow> handled" where
  "handleRetentionPriceSubmit s =
     (s\<lparr>step := Retention_final, completedSteps := 3\<rparr>,
      [\<lparr>accepted_downsell = False,
        reason = js ''Too expensive - willing to pay: $'' @ maxPrice (retentionData s)\<rparr>])"

text \<open>
  \<^verbatim>\<open>backMap\<close> is keyed by flow steps. A \<^verbatim>\<open>step\<close> that is no flow step is turned into a
  property name that is neither an own property of \<^verbatim>\<open>backMap\<close> nor a member of the
  prototype, so the read gives \<^verbatim>\<open>undefined\<close>.
\<close>

definition backMap :: "FlowStep \<Rightarrow> FlowStep option" where
  "backMap st =
     (case st of
        Survey \<Rightarrow> Some Job_question
      | Feedback \<Rightarrow> Some Survey
      | Congratulations \<Rightarrow> Some Feedback
      | Visa_support \<Rightarrow> Some Congratulations
      | Visa_yes \<Rightarrow> Some Visa_support
      | Visa_no \<Rightarrow> Some Visa_support
      | Retention_offer \<Rightarrow> Some Job_question
      | Retention_survey \<Rightarrow> Some Retention_offer
      | Retention_reason \<Rightarrow> Some Retention_survey
      | Retention_price \<Rightarrow> Some Retention_reason
      | _ \<Rightarrow> None)"

definition goBack :: "FlowState \<Rightarrow> handled" where
  "goBack s =
     (case backMap (step s) of
        None \<Rightarrow> (s, [])
      | Some prevStep \<Rightarrow>
          (if prevStep = Visa_support then s\<lparr>step := prevStep, hasLawyer := None\<rparr>
           else s\<lparr>step := prevStep\<rparr>, []))"

definition showBackButton :: "FlowState \<Rightarrow> bool" where
  "showBackButton s \<longleftrightarrow> step s \<notin> set [Job_question, Retention_offer]"

subsection \<open>The controls of the wizard\<close>

text \<open>
  The handlers carry no guards of their own: what a user can do at a step is decided by
  the markup, which renders one panel per step, gives each button its handler and
  disables some buttons by a validation predicate. \<open>transition\<close> reads that off the
  markup, for the wizard as rendered (variant loaded, modal open). A control that is
  not rendered or is disabled delivers no event, so the action leaves the state as it
  is and dispatches nothing.

  \<^item> \<open>Answer b\<close>: the two buttons of the job question; at \<^verbatim>\<open>visa-support\<close> the two
    radio inputs, whose \<^verbatim>\<open>onChange\<close> fires only for the input that is not checked yet.
  \<^item> \<open>Submit\<close>: the button at the bottom of a form panel (\<^verbatim>\<open>Continue\<close> or
    \<^verbatim>\<open>Complete cancellation\<close>), with its \<^verbatim>\<open>disabled\<close> attribute.
  \<^item> \<open>Next\<close>: the button of the congratulations panel.
  \<^item> \<open>Accept True\<close>: the discount button of the retention panels;
    \<open>Accept False\<close>: \<^verbatim>\<open>No thanks\<close> on the offer panel.
  \<^item> \<open>Back\<close>: the header's back button, rendered when \<open>showBackButton\<close> holds.
\<close>

datatype Action = Answer bool | Submit | Next | Accept bool | Back

definition transition :: "FlowState \<Rightarrow> Action \<Rightarrow> handled" where
  "transition s a =
     (case a of
        Back \<Rightarrow> if showBackButton s then goBack s else (s, [])
      | Answer b \<Rightarrow>
          (case step s of
             Job_question \<Rightarrow> handleJobResponse b s
           | Visa_support \<Rightarrow>
               if hasLawyer s = Some b then (s, []) else handleVisaSupportResponse b s
           | _ \<Rightarrow> (s, []))
      | Next \<Rightarrow>
          (case step s of
             Congratulations \<Rightarrow>
               if hasLawyer s = None then (s, []) else handleCongratulationsNext s
           | _ \<Rightarrow> (s, []))
      | Accept b \<Rightarrow>
          (case step s of
             Retention_offer \<Rightarrow> handleRetentionOffer b s
           | Retention_survey \<Rightarrow> if b then handleRetentionOffer True s else (s, [])
           | Retention_reason \<Rightarrow> if b then handleRetentionOffer True s else (s, [])
           | Retention_price \<Rightarrow> if b then handleRetentionOffer True s else (s, [])
           | Retention_platform \<Rightarrow> if b then handleRetentionOffer True s else (s, [])
           | Retention_jobs \<Rightarrow> if b then handleRetentionOffer True s else (s, [])
           | Retention_move \<Rightarrow> if b then handleRetentionOffer True s else (s, [])
           | Retention_other \<Rightarrow> if b then handleRetentionOffer True s else (s, [])
           | _ \<Rightarrow> (s, []))
      | Submit \<Rightarrow>
          (case step s of
             Survey \<Rightarrow> if isSurveyValid s then handleSurveySubmit s else (s, [])
           | Feedback \<Rightarrow> if isFeedbackValid s then handleFeedbackSubmit s else (s, [])
           | Visa_support \<Rightarrow>
               (case hasLawyer s of
                  None \<Rightarrow> (s, [])
                | Some b \<Rightarrow> handleVisaSupportResponse b s)
           | Visa_yes \<Rightarrow>
               if trim (visaType s) = [] then (s, []) else handleVisaDetailsSubmit s
           | Visa_no \<Rightarrow>
               if trim (visaType s) = [] then (s, []) else handleVisaDetailsSubmit s
           | Retention_survey \<Rightarrow>
               if isRetentionSurveyValid s then handleRetentionSurveySubmit s else (s, [])
           | Retention_reason \<Rightarrow>
               if truthy_string (cancellationReason (retentionData s))
               then handleRetentionReasonSubmit s else (s, [])
           | Retention_price \<Rightarrow>
               if trim (maxPrice (retentionData s)) = [] then (s, [])
               else handleRetentionPriceSubmit s
           | Retention_platform \<Rightarrow>
               if isReasonFeedbackValid s then handleReasonFeedbackSubmit s else (s, [])
           | Retention_jobs \<Rightarrow>
               if isReasonFeedbackValid s then handleReasonFeedbackSubmit s else (s, [])
           | Retention_move \<Rightarrow>
               if isReasonFeedbackValid s then handleReasonFeedbackSubmit s else (s, [])
           | Retention_other \<Rightarrow>
               if isReasonFeedbackValid s then handleReasonFeedbackSubmit s else (s, [])
           | _ \<Rightarrow> (s, [])))"

subsection \<open>Request bodies\<close>

text \<open>
  \<^verbatim>\<open>request.json()\<close> yields any JSON value, and a destructured field of it is a JSON
  value or \<^verbatim>\<open>undefined\<close>. An object is a list of members in the order of the text,
  and a name that occurs twice keeps its last value. The handler reads five names
  (\<^verbatim>\<open>user_id\<close>, \<^verbatim>\<open>subscription_id\<close>, \<^verbatim>\<open>get_variant\<close>, \<^verbatim>\<open>accepted_downsell\<close>,
  \<^verbatim>\<open>reason\<close>); none of them is a member of a prototype, so on an array, a string, a
  number or a boolean each of them reads as \<^verbatim>\<open>undefined\<close>. Only zero matters of a
  number, so a number is a real.
\<close>

datatype json =
    JUndefined
  | JNull
  | JBool bool
  | JNum real
  | JStr jsstring
  | JArr "json list"
  | JObj "(jsstring \<times> json) list"

definition field :: "json \<Rightarrow> jsstring \<Rightarrow> json" where
  "field b k =
     (case b of
        JObj members \<Rightarrow> (case map_of (rev members) k of None \<Rightarrow> JUndefined | Some v \<Rightarrow> v)
      | _ \<Rightarrow> JUndefined)"

definition truthy :: "json \<Rightarrow> bool" where
  "truthy x =
     (case x of
        JUndefined \<Rightarrow> False
      | JNull \<Rightarrow> False
      | JBool b \<Rightarrow> b
      | JNum n \<Rightarrow> n \<noteq> 0
      | JStr t \<Rightarrow> t \<noteq> []
      | JArr _ \<Rightarrow> True
      | JObj _ \<Rightarrow> True)"

definition is_boolean :: "json \<Rightarrow> bool" where
  "is_boolean x = (case x of JBool _ \<Rightarrow> True | _ \<Rightarrow> False)"

definition is_string :: "json \<Rightarrow> bool" where
  "is_string x = (case x of JStr _ \<Rightarrow> True | _ \<Rightarrow> False)"

subsection \<open>The store\<close>

datatype Variant = Variant_A | Variant_B

datatype SubscriptionStatus = Active | Pending_cancellation | Cancelled

text \<open>
  The rows carry the columns that the route names. A column that the route fills from
  the request holds the JSON value it was given; a column that an insert does not name
  is unset (\<open>None\<close>, or \<open>JNull\<close> for the reason).
\<close>

record Cancellation =
  c_user_id :: json
  c_subscription_id :: json
  c_downsell_variant :: "Variant option"
  c_reason :: json
  c_accepted_downsell :: "bool option"

record Subscription =
  s_id :: json
  s_status :: SubscriptionStatus
  s_updated_at :: nat

record db =
  cancellations :: "Cancellation list"
  subscriptions :: "Subscription list"

text \<open>
  What becomes of one awaited call of the storage client: the backend performs the
  operation and the client resolves without an error; or the client resolves with its
  \<^verbatim>\<open>error\<close> field set and \<^verbatim>\<open>data\<close> null, the operation not performed; or the awaited
  promise rejects, which in the source is an exception at the \<^verbatim>\<open>await\<close>.
\<close>

datatype outcome = Performed | Reported_error | Rejected

datatype exn = Storage_rejection

text \<open>
  The environment of one request: the outcome of each storage call the route can make,
  the byte that \<^verbatim>\<open>crypto.randomBytes(1)\<close> returns and the clock of \<^verbatim>\<open>new Date()\<close>.
\<close>

record env =
  lookup_outcome :: outcome
  insert_outcome :: outcome
  update_outcome :: outcome
  status_outcome :: outcome
  randomBytes :: "8 word"
  now :: nat

text \<open>
  Modelled from the spec: the storage backend behind \<^verbatim>\<open>supabase\<close>, the client of
  \<^verbatim>\<open>lib/supabase\<close>, which is not among the sources. The spec treats it as a record
  store with a variant record per identity pair. Here a table is the list of its rows;
  \<^verbatim>\<open>.select("downsell_variant").eq(..).eq(..).single()\<close> answers with the selected
  column of the one row that matches, and with null data when no row or more than one
  row matches.
\<close>

definition select_single ::
  "outcome \<Rightarrow> Cancellation list \<Rightarrow> json \<Rightarrow> json \<Rightarrow> exn + Variant option option" where
  "select_single oc rows u sid =
     (case oc of
        Rejected \<Rightarrow> Inl Storage_rejection
      | Reported_error \<Rightarrow> Inr None
      | Performed \<Rightarrow>
          (case filter (\<lambda>r. c_user_id r = u \<and> c_subscription_id r = sid) rows of
             [r] \<Rightarrow> Inr (Some (c_downsell_variant r))
           | _ \<Rightarrow> Inr None))"

text \<open>
  Modelled from the spec: \<^verbatim>\<open>.insert(row)\<close> of the same storage backend, which adds the
  row to the table when the operation is performed.
\<close>

definition insert_row ::
  "outcome \<Rightarrow> Cancellation list \<Rightarrow> Cancellation \<Rightarrow> exn + Cancellation list" where
  "insert_row oc rows r =
     (case oc of
        Rejected \<Rightarrow> Inl Storage_rejection
      | Reported_error \<Rightarrow> Inr rows
      | Performed \<Rightarrow> Inr (rows @ [r]))"

text \<open>
  Modelled from the spec: \<^verbatim>\<open>.update({ accepted_downsell, reason }).eq(..).eq(..)\<close> of
  the same storage backend, which writes the named columns of every matching row. The
  request is serialised as JSON, so an \<^verbatim>\<open>undefined\<close> reason is left out of it and the
  column keeps its value.
\<close>

definition update_cancellation ::
  "outcome \<Rightarrow> Cancellation list \<Rightarrow> json \<Rightarrow> json \<Rightarrow> bool \<Rightarrow> json
     \<Rightarrow> exn + Cancellation list" where
  "update_cancellation oc rows u sid acc rsn =
     (case oc of
        Rejected \<Rightarrow> Inl Storage_rejection
      | Reported_error \<Rightarrow> Inr rows
      | Performed \<Rightarrow>
          Inr (map (\<lambda>r. if c_user_id r = u \<and> c_subscription_id r = sid
                        then r\<lparr>c_accepted_downsell := Some acc,
                               c_reason := (if rsn = JUndefined then c_reason r else rsn)\<rparr>
                        else r) rows))"

text \<open>
  Modelled from the spec: \<^verbatim>\<open>.update({ status, updated_at }).eq("id", ..)\<close> on the
  subscriptions table of the same storage backend.
\<close>

definition update_subscription ::
  "outcome \<Rightarrow> Subscription list \<Rightarrow> json \<Rightarrow> SubscriptionStatus \<Rightarrow> nat
     \<Rightarrow> exn + Subscription list" where
  "update_subscription oc rows sid st t =
     (case oc of
        Rejected \<Rightarrow> Inl Storage_rejection
      | Reported_error \<Rightarrow> Inr rows
      | Performed \<Rightarrow>
          Inr (map (\<lambda>r. if s_id r = sid then r\<lparr>s_status := st, s_updated_at := t\<rparr> else r)
                 rows))"

subsection \<open>The route\<close>

text \<open>
  \<^verbatim>\<open>getOrAssignVariant\<close> reads \<^verbatim>\<open>data\<close> of the lookup and nothing else of its answer,
  and does not look at the answer of the insert. An exception at either \<^verbatim>\<open>await\<close>
  leaves the function.
\<close>

definition getOrAssignVariant ::
  "env \<Rightarrow> db \<Rightarrow> json \<Rightarrow> json \<Rightarrow> (exn + Variant) \<times> db" where
  "getOrAssignVariant e d userId subscriptionId =
     (case select_single (lookup_outcome e) (cancellations d) userId subscriptionId of
        Inl x \<Rightarrow> (Inl x, d)
      | Inr (Some (Some v)) \<Rightarrow> (Inr v, d)
      | Inr _ \<Rightarrow>
          (let randomValue = unat (randomBytes e);
               variant = (if randomValue mod 2 = 0 then Variant_A else Variant_B)
           in case insert_row (insert_outcome e) (cancellations d)
                     \<lparr>c_user_id = userId, c_subscription_id = subscriptionId,
                      c_downsell_variant = Some variant, c_reason = JNull,
                      c_accepted_downsell = None\<rparr> of
                Inl x \<Rightarrow> (Inl x, d)
              | Inr rows \<Rightarrow> (Inr variant, d\<lparr>cancellations := rows\<rparr>)))"

text \<open>Sequential calls for one identity pair, each in its own environment.\<close>

fun calls :: "env list \<Rightarrow> db \<Rightarrow> json \<Rightarrow> json \<Rightarrow> (exn + Variant) list \<times> db" where
  "calls [] d userId subscriptionId = ([], d)"
| "calls (e # es) d userId subscriptionId =
     (case getOrAssignVariant e d userId subscriptionId of
        (r, d') \<Rightarrow>
          (case calls es d' userId subscriptionId of (rs, d'') \<Rightarrow> (r # rs, d'')))"

record response =
  status :: nat
  success :: bool
  message :: "jsstring option"
  variant :: "Variant option"

definition internal_server_error :: response where
  "internal_server_error =
     \<lparr>status = 500, success = False, message = Some (js ''Internal server error''),
      variant = None\<rparr>"

definition bad_request :: "string \<Rightarrow> response" where
  "bad_request m = \<lparr>status = 400, success = False, message = Some (js m), variant = None\<rparr>"

text \<open>
  \<^verbatim>\<open>POST\<close>. The body is \<open>None\<close> when \<^verbatim>\<open>request.json()\<close> rejects; destructuring
  \<^verbatim>\<open>null\<close> (or \<^verbatim>\<open>undefined\<close>) throws. A boolean is truthy exactly when it is
  \<^verbatim>\<open>true\<close>. Every exception inside the \<^verbatim>\<open>try\<close> ends in the \<^verbatim>\<open>catch\<close>, which
  answers 500; what the store took before the exception stays.
\<close>

definition POST :: "env \<Rightarrow> db \<Rightarrow> json option \<Rightarrow> response \<times> db" where
  "POST e d body =
     (case body of
        None \<Rightarrow> (internal_server_error, d)
      | Some b \<Rightarrow>
          if b = JUndefined \<or> b = JNull then (internal_server_error, d)
          else
          (let user_id = field b (js ''user_id'');
               subscription_id = field b (js ''subscription_id'');
               get_variant = field b (js ''get_variant'');
               accepted_downsell = field b (js ''accepted_downsell'');
               reason = field b (js ''reason'')
           in if \<not> truthy user_id \<or> \<not> truthy subscription_id
              then (bad_request ''Missing user_id or subscription_id'', d)
              else if truthy get_variant
              then (case getOrAssignVariant e d user_id subscription_id of
                      (Inl x, d') \<Rightarrow> (internal_server_error, d')
                    | (Inr v, d') \<Rightarrow>
                        (\<lparr>status = 200, success = True, message = None, variant = Some v\<rparr>,
                         d'))
              else if \<not> is_boolean accepted_downsell
              then (bad_request ''accepted_downsell must be boolean'', d)
              else if truthy reason \<and> \<not> is_string reason
              then (bad_request ''reason must be string'', d)
              else (case update_cancellation (update_outcome e) (cancellations d)
                           user_id subscription_id (truthy accepted_downsell) reason of
                      Inl x \<Rightarrow> (internal_server_error, d)
                    | Inr rows \<Rightarrow>
                        (if truthy accepted_downsell
                         then (\<lparr>status = 200, success = True, message = None,
                                variant = None\<rparr>, d\<lparr>cancellations := rows\<rparr>)
                         else (case update_subscription (status_outcome e) (subscriptions d)
                                      subscription_id Pending_cancellation (now e) of
                                 Inl x \<Rightarrow> (internal_server_error, d\<lparr>cancellations := rows\<rparr>)
                               | Inr subs \<Rightarrow>
                                   (\<lparr>status = 200, success = True, message = None,
                                     variant = None\<rparr>,
                                    d\<lparr>cancellations := rows, subscriptions := subs\<rparr>))))))"

section \<open>Properties of the wizard\<close>

subsection \<open>Back navigation\<close>

text \<open>
  Claim C1. The back action follows the static map: from survey to job-question, from
  feedback to survey, from congratulations to feedback, from visa-support to
  congratulations, from visa-yes and visa-no to visa-support, from retention-survey to
  retention-offer, from retention-reason to retention-survey and from retention-price
  to retention-reason. At job-question and at retention-offer there is no back target,
  and at every other step (retention-platform, retention-jobs, retention-move,
  retention-other, the terminal steps) the back action leaves the state unchanged.
  Whenever the target is visa-support, \<open>hasLawyer\<close> becomes null. No report is
  dispatched.
\<close>

theorem back_navigation_static_map:
  "transition s Back =
     (case step s of
        Survey \<Rightarrow> (s\<lparr>step := Job_question\<rparr>, [])
      | Feedback \<Rightarrow> (s\<lparr>step := Survey\<rparr>, [])
      | Congratulations \<Rightarrow> (s\<lparr>step := Feedback\<rparr>, [])
      | Visa_support \<Rightarrow> (s\<lparr>step := Congratulations\<rparr>, [])
      | Visa_yes \<Rightarrow> (s\<lparr>step := Visa_support, hasLawyer := None\<rparr>, [])
      | Visa_no \<Rightarrow> (s\<lparr>step := Visa_support, hasLawyer := None\<rparr>, [])
      | Retention_survey \<Rightarrow> (s\<lparr>step := Retention_offer\<rparr>, [])
      | Retention_reason \<Rightarrow> (s\<lparr>step := Retention_survey\<rparr>, [])
      | Retention_price \<Rightarrow> (s\<lparr>step := Retention_reason\<rparr>, [])
      | _ \<Rightarrow> (s, []))"
  by (cases "step s") (simp_all add: transition_def showBackButton_def goBack_def backMap_def)

theorem back_navigation_static_map_witness:
  "transition (initialState\<lparr>step := Visa_yes, hasLawyer := Some True\<rparr>) Back =
     (initialState\<lparr>step := Visa_support, hasLawyer := None\<rparr>, []) \<and>
   transition (initialState\<lparr>step := Retention_offer\<rparr>) Back =
     (initialState\<lparr>step := Retention_offer\<rparr>, [])"
  using back_navigation_static_map [of "initialState\<lparr>step := Visa_yes, hasLawyer := Some True\<rparr>"]
        back_navigation_static_map [of "initialState\<lparr>step := Retention_offer\<rparr>"]
  by (simp add: initialState_def)

text \<open>
  \<^verbatim>\<open>backMap\<close> itself has an entry from retention-offer to job-question. No event reaches
  it: the back button is not rendered at retention-offer.
\<close>

lemma goBack_retention_offer_hidden:
  "step s = Retention_offer \<Longrightarrow>
     goBack s = (s\<lparr>step := Job_question\<rparr>, []) \<and> \<not> showBackButton s"
  by (simp add: goBack_def backMap_def showBackButton_def)

subsection \<open>Submitting feedback that is too short\<close>

text \<open>
  Claim C4. At step feedback with a feedback string of fewer than 25 code units, the
  submit action leaves the state unchanged and dispatches nothing; \<open>transition\<close> is a
  total function, so nothing is thrown. The scenario of the specification, feedback
  \<^verbatim>\<open>"short"\<close>, is the witness.
\<close>

theorem feedback_submit_below_minimum:
  assumes "step s = Feedback" and "length (feedback s) < 25"
  shows "transition s Submit = (s, [])"
  using assms by (simp add: transition_def isFeedbackValid_def MIN_FEEDBACK_LENGTH_def)

theorem feedback_submit_below_minimum_witness:
  "step (initialState\<lparr>step := Feedback, feedback := js ''short''\<rparr>) = Feedback \<and>
   length (feedback (initialState\<lparr>step := Feedback, feedback := js ''short''\<rparr>)) < 25 \<and>
   transition (initialState\<lparr>step := Feedback, feedback := js ''short''\<rparr>) Submit =
     (initialState\<lparr>step := Feedback, feedback := js ''short''\<rparr>, [])"
  using feedback_submit_below_minimum
          [of "initialState\<lparr>step := Feedback, feedback := js ''short''\<rparr>"]
  by (simp add: js_def)

text \<open>
  The guard is the \<^verbatim>\<open>disabled\<close> attribute of the button: the handler, were it called,
  would move on whatever the length.
\<close>

lemma handleFeedbackSubmit_unguarded:
  "handleFeedbackSubmit s = (s\<lparr>step := Congratulations, completedSteps := 2\<rparr>, [])"
  by (simp add: handleFeedbackSubmit_def)

subsection \<open>Accepting the retention offer\<close>

text \<open>
  Claim C5. At each of the steps retention-offer, retention-survey, retention-reason,
  retention-platform, retention-jobs, retention-move and retention-other, accepting the
  offer moves to retention-accepted and dispatches exactly one report, with
  \<open>accepted_downsell\<close> true and the reason \<^verbatim>\<open>"Accepted retention offer"\<close>. Declining
  at retention-offer moves to retention-survey and dispatches nothing.
\<close>

theorem accept_retention_offer:
  "(step s \<in> {Retention_offer, Retention_survey, Retention_reason, Retention_platform,
               Retention_jobs, Retention_move, Retention_other} \<longrightarrow>
      transition s (Accept True) =
        (s\<lparr>step := Retention_accepted, completedSteps := 0\<rparr>,
         [\<lparr>accepted_downsell = True, reason = js ''Accepted retention offer''\<rparr>])) \<and>
   (step s = Retention_offer \<longrightarrow>
      transition s (Accept False) = (s\<lparr>step := Retention_survey, completedSteps := 1\<rparr>, []))"
  by (auto simp add: transition_def handleRetentionOffer_def)

theorem accept_retention_offer_witness:
  "transition (initialState\<lparr>step := Retention_offer\<rparr>) (Accept True) =
     (initialState\<lparr>step := Retention_accepted, completedSteps := 0\<rparr>,
      [\<lparr>accepted_downsell = True, reason = js ''Accepted retention offer''\<rparr>]) \<and>
   transition (initialState\<lparr>step := Retention_offer\<rparr>) (Accept False) =
     (initialState\<lparr>step := Retention_survey, completedSteps := 1\<rparr>, [])"
  using accept_retention_offer [of "initialState\<lparr>step := Retention_offer\<rparr>"]
  by simp

subsection \<open>Submitting the visa details\<close>

text \<open>
  Claim C7. At step visa-yes or visa-no with a visa type that is not blank after
  trimming, the submit action moves to success when \<open>hasLawyer\<close> is true and to
  success-alt otherwise, and dispatches exactly one report, with \<open>accepted_downsell\<close>
  false and the reason \<^verbatim>\<open>"Completed visa support flow"\<close>.
\<close>

theorem visa_details_submit:
  assumes "step s = Visa_yes \<or> step s = Visa_no" and "trim (visaType s) \<noteq> []"
  shows "transition s Submit =
           (s\<lparr>step := (if hasLawyer s = Some True then Success else Success_alt)\<rparr>,
            [\<lparr>accepted_downsell = False, reason = js ''Completed visa support flow''\<rparr>])"
  using assms by (auto simp add: transition_def handleVisaDetailsSubmit_def)

theorem visa_details_submit_witness:
  "transition (initialState\<lparr>step := Visa_yes, hasLawyer := Some True, visaType := js ''H-1B''\<rparr>)
     Submit =
     (initialState\<lparr>step := Success, hasLawyer := Some True, visaType := js ''H-1B''\<rparr>,
      [\<lparr>accepted_downsell = False, reason = js ''Completed visa support flow''\<rparr>])"
  using visa_details_submit
          [of "initialState\<lparr>step := Visa_yes, hasLawyer := Some True, visaType := js ''H-1B''\<rparr>"]
  by (simp add: trim_def isWhiteSpace_def js_def)

subsection \<open>Routing by the cancellation reason\<close>

text \<open>
  Claim C6, as amended. At step retention-reason with a cancellation reason that is set
  (neither null nor empty), the submit action routes by its value:
  \<^verbatim>\<open>"Too expensive"\<close> to retention-price, \<^verbatim>\<open>"Platform not helpful"\<close> to
  retention-platform, \<^verbatim>\<open>"Not enough relevant jobs"\<close> to retention-jobs,
  \<^verbatim>\<open>"Decided not to move"\<close> to retention-move, \<^verbatim>\<open>"Other"\<close> to retention-other, and
  any other value to retention-final, provided the value is not the name of a member
  that \<^verbatim>\<open>stepMap\<close> inherits. With the reason unset the submit button is disabled and
  the action leaves the state unchanged.
\<close>

theorem retention_reason_routing:
  assumes "step s = Retention_reason"
  shows "(\<not> truthy_string (cancellationReason (retentionData s)) \<longrightarrow>
            transition s Submit = (s, [])) \<and>
         (\<forall>r. cancellationReason (retentionData s) = Some r \<and> r \<noteq> [] \<and>
               r \<notin> set Object_prototype \<longrightarrow>
            transition s Submit =
              (s\<lparr>step :=
                   (if r = js ''Too expensive'' then Retention_price
                    else if r = js ''Platform not helpful'' then Retention_platform
                    else if r = js ''Not enough relevant jobs'' then Retention_jobs
                    else if r = js ''Decided not to move'' then Retention_move
                    else if r = js ''Other'' then Retention_other
                    else Retention_final),
                 completedSteps := 3\<rparr>, []))"
  using assms
  by (simp add: transition_def truthy_string_def handleRetentionReasonSubmit_def
        stepMap_get_def stepMap_def)

theorem retention_reason_routing_witness:
  "transition (initialState\<lparr>step := Retention_reason,
       retentionData :=
         (retentionData initialState)\<lparr>cancellationReason := Some (js ''Too expensive'')\<rparr>\<rparr>)
     Submit =
     (initialState\<lparr>step := Retention_price, completedSteps := 3,
       retentionData :=
         (retentionData initialState)\<lparr>cancellationReason := Some (js ''Too expensive'')\<rparr>\<rparr>,
      []) \<and>
   transition (initialState\<lparr>step := Retention_reason,
       retentionData :=
         (retentionData initialState)\<lparr>cancellationReason := Some (js ''Moving abroad'')\<rparr>\<rparr>)
     Submit =
     (initialState\<lparr>step := Retention_final, completedSteps := 3,
       retentionData :=
         (retentionData initialState)\<lparr>cancellationReason := Some (js ''Moving abroad'')\<rparr>\<rparr>,
      []) \<and>
   transition (initialState\<lparr>step := Retention_reason\<rparr>) Submit =
     (initialState\<lparr>step := Retention_reason\<rparr>, [])"
  using retention_reason_routing [of "initialState\<lparr>step := Retention_reason,
       retentionData :=
         (retentionData initialState)\<lparr>cancellationReason := Some (js ''Too expensive'')\<rparr>\<rparr>"]
    retention_reason_routing [of "initialState\<lparr>step := Retention_reason,
       retentionData :=
         (retentionData initialState)\<lparr>cancellationReason := Some (js ''Moving abroad'')\<rparr>\<rparr>"]
    retention_reason_routing [of "initialState\<lparr>step := Retention_reason\<rparr>"]
  by (simp add: Object_prototype_def js_def truthy_string_def initialState_def)

text \<open>
  The claim as first stated sends an unset reason to retention-final. With the reason
  null the submit action leaves the wizard at retention-reason.
\<close>

theorem retention_reason_unset_counterexample:
  "cancellationReason (retentionData (initialState\<lparr>step := Retention_reason\<rparr>)) = None \<and>
   step (fst (transition (initialState\<lparr>step := Retention_reason\<rparr>) Submit)) \<noteq> Retention_final"
  by (simp add: transition_def truthy_string_def initialState_def)

text \<open>
  The fallback for an unset reason is in the handler, which no control calls in that
  state.
\<close>

lemma handleRetentionReasonSubmit_fallback:
  "\<not> truthy_string (cancellationReason (retentionData s)) \<Longrightarrow>
     handleRetentionReasonSubmit s = (s\<lparr>step := Retention_final, completedSteps := 3\<rparr>, [])"
  by (auto simp add: handleRetentionReasonSubmit_def truthy_string_def split: option.splits)

text \<open>
  A reason that names an inherited member of \<^verbatim>\<open>stepMap\<close> is not unmatched for the
  property read: the step becomes that member, which is no flow step. The radio list
  offers the five reasons of \<open>CANCELLATION_REASONS\<close> only, so the wizard does not
  produce such a reason by itself.
\<close>

lemma retention_reason_inherited_member:
  "step (fst (transition
       (initialState\<lparr>step := Retention_reason,
          retentionData :=
            (retentionData initialState)\<lparr>cancellationReason := Some (js ''constructor'')\<rparr>\<rparr>)
       Submit)) = Not_a_step (js ''constructor'')"
  by (simp add: transition_def truthy_string_def handleRetentionReasonSubmit_def
        stepMap_get_def stepMap_def Object_prototype_def js_def)

section \<open>Properties of the route\<close>

subsection \<open>Storage failures in the variant assignment\<close>

text \<open>
  Claim C2 asks that a failed lookup or insert of \<^verbatim>\<open>getOrAssignVariant\<close> reaches the
  caller as a storage failure, and that no locally generated variant is returned after
  a failed persist. The code does not do that for a failure that the storage client
  reports in its answer. On an empty store, with the lookup and the insert both
  answered by an error, the call returns the variant drawn from the random byte (A for
  the byte 0, B for the byte 1) and nothing is stored.
\<close>

theorem getOrAssignVariant_swallows_reported_error:
  "getOrAssignVariant
     \<lparr>lookup_outcome = Reported_error, insert_outcome = Reported_error,
      update_outcome = Performed, status_outcome = Performed, randomBytes = 0, now = 0\<rparr>
     \<lparr>cancellations = [], subscriptions = []\<rparr> (JStr (js ''u1'')) (JStr (js ''s1'')) =
     (Inr Variant_A, \<lparr>cancellations = [], subscriptions = []\<rparr>) \<and>
   getOrAssignVariant
     \<lparr>lookup_outcome = Reported_error, insert_outcome = Reported_error,
      update_outcome = Performed, status_outcome = Performed, randomBytes = 1, now = 0\<rparr>
     \<lparr>cancellations = [], subscriptions = []\<rparr> (JStr (js ''u1'')) (JStr (js ''s1'')) =
     (Inr Variant_B, \<lparr>cancellations = [], subscriptions = []\<rparr>)"
  by (simp add: getOrAssignVariant_def select_single_def insert_row_def)

text \<open>
  The same for every store and every identity pair: after a lookup that reports an
  error the call returns the drawn variant, and after an insert that reports an error
  it returns the drawn variant with the store as it was.
\<close>

lemma getOrAssignVariant_reported_errors:
  assumes "lookup_outcome e = Reported_error" and "insert_outcome e \<noteq> Rejected"
  shows "fst (getOrAssignVariant e d u sid) =
           Inr (if unat (randomBytes e) mod 2 = 0 then Variant_A else Variant_B)"
  using assms
  by (cases "insert_outcome e")
     (simp_all add: getOrAssignVariant_def select_single_def insert_row_def Let_def)

lemma getOrAssignVariant_insert_reported_error:
  assumes "lookup_outcome e = Performed"
      and "filter (\<lambda>r. c_user_id r = u \<and> c_subscription_id r = sid) (cancellations d) = []"
      and "insert_outcome e = Reported_error"
  shows "getOrAssignVariant e d u sid =
           (Inr (if unat (randomBytes e) mod 2 = 0 then Variant_A else Variant_B), d)"
  using assms
  by (simp add: getOrAssignVariant_def select_single_def insert_row_def Let_def)

text \<open>
  An exception at an \<^verbatim>\<open>await\<close> does reach the caller, and these are the only ways
  the function fails.
\<close>

lemma getOrAssignVariant_lookup_rejected:
  "lookup_outcome e = Rejected \<Longrightarrow>
     getOrAssignVariant e d u sid = (Inl Storage_rejection, d)"
  by (simp add: getOrAssignVariant_def select_single_def)

lemma getOrAssignVariant_insert_rejected:
  assumes "lookup_outcome e \<noteq> Rejected" and "insert_outcome e = Rejected"
      and "\<forall>v. select_single (lookup_outcome e) (cancellations d) u sid \<noteq> Inr (Some (Some v))"
  shows "getOrAssignVariant e d u sid = (Inl Storage_rejection, d)"
  using assms
  by (cases "lookup_outcome e")
     (auto simp add: getOrAssignVariant_def select_single_def insert_row_def Let_def
        split: sum.splits option.splits list.splits)

lemma getOrAssignVariant_Inl_iff:
  "(\<exists>x. fst (getOrAssignVariant e d u sid) = Inl x) \<longleftrightarrow>
     lookup_outcome e = Rejected \<or>
     (insert_outcome e = Rejected \<and>
      (\<forall>v. select_single (lookup_outcome e) (cancellations d) u sid \<noteq> Inr (Some (Some v))))"
  by (cases "lookup_outcome e"; cases "insert_outcome e")
     (auto simp add: getOrAssignVariant_def select_single_def insert_row_def Let_def
        split: sum.splits option.splits list.splits)

text \<open>
  The function touches no subscription, and leaves the cancellation rows as they are
  or adds the one row that holds the variant it returns.
\<close>

lemma getOrAssignVariant_frame:
  "subscriptions (snd (getOrAssignVariant e d u sid)) = subscriptions d \<and>
   (cancellations (snd (getOrAssignVariant e d u sid)) = cancellations d \<or>
    (\<exists>v. fst (getOrAssignVariant e d u sid) = Inr v \<and>
          cancellations (snd (getOrAssignVariant e d u sid)) =
            cancellations d @
              [\<lparr>c_user_id = u, c_subscription_id = sid, c_downsell_variant = Some v,
                c_reason = JNull, c_accepted_downsell = None\<rparr>]))"
  by (cases "insert_outcome e")
     (auto simp add: getOrAssignVariant_def insert_row_def Let_def
        split: sum.splits option.splits)

subsection \<open>Idempotence of the variant assignment\<close>

text \<open>
  Claim C3 asks that, once a record with a stored variant exists for an identity pair,
  every call returns that variant and creates no record, so that sequential calls all
  return the variant of the first. The code breaks this when a lookup reports an
  error. The store holds one row for the pair, with variant B. A first call whose
  lookup is answered by an error returns A and adds a second row; the next call, with
  every storage call performed, finds two rows, which \<^verbatim>\<open>.single()\<close> answers with
  null data, returns B and adds a third row.
\<close>

theorem getOrAssignVariant_second_variant_after_error:
  "getOrAssignVariant
     \<lparr>lookup_outcome = Reported_error, insert_outcome = Performed,
      update_outcome = Performed, status_outcome = Performed, randomBytes = 0, now = 1\<rparr>
     \<lparr>cancellations =
        [\<lparr>c_user_id = JStr (js ''u1''), c_subscription_id = JStr (js ''s1''),
          c_downsell_variant = Some Variant_B, c_reason = JNull, c_accepted_downsell = None\<rparr>],
      subscriptions = []\<rparr>
     (JStr (js ''u1'')) (JStr (js ''s1'')) =
     (Inr Variant_A,
      \<lparr>cancellations =
        [\<lparr>c_user_id = JStr (js ''u1''), c_subscription_id = JStr (js ''s1''),
          c_downsell_variant = Some Variant_B, c_reason = JNull, c_accepted_downsell = None\<rparr>,
         \<lparr>c_user_id = JStr (js ''u1''), c_subscription_id = JStr (js ''s1''),
          c_downsell_variant = Some Variant_A, c_reason = JNull, c_accepted_downsell = None\<rparr>],
       subscriptions = []\<rparr>) \<and>
   getOrAssignVariant
     \<lparr>lookup_outcome = Performed, insert_outcome = Performed,
      update_outcome = Performed, status_outcome = Performed, randomBytes = 1, now = 2\<rparr>
     \<lparr>cancellations =
        [\<lparr>c_user_id = JStr (js ''u1''), c_subscription_id = JStr (js ''s1''),
          c_downsell_variant = Some Variant_B, c_reason = JNull, c_accepted_downsell = None\<rparr>,
         \<lparr>c_user_id = JStr (js ''u1''), c_subscription_id = JStr (js ''s1''),
          c_downsell_variant = Some Variant_A, c_reason = JNull, c_accepted_downsell = None\<rparr>],
       subscriptions = []\<rparr>
     (JStr (js ''u1'')) (JStr (js ''s1'')) =
     (Inr Variant_B,
      \<lparr>cancellations =
        [\<lparr>c_user_id = JStr (js ''u1''), c_subscription_id = JStr (js ''s1''),
          c_downsell_variant = Some Variant_B, c_reason = JNull, c_accepted_downsell = None\<rparr>,
         \<lparr>c_user_id = JStr (js ''u1''), c_subscription_id = JStr (js ''s1''),
          c_downsell_variant = Some Variant_A, c_reason = JNull, c_accepted_downsell = None\<rparr>,
         \<lparr>c_user_id = JStr (js ''u1''), c_subscription_id = JStr (js ''s1''),
          c_downsell_variant = Some Variant_B, c_reason = JNull, c_accepted_downsell = None\<rparr>],
       subscriptions = []\<rparr>)"
  by (simp add: getOrAssignVariant_def select_single_def insert_row_def)

text \<open>
  What does hold: while the pair has one row with a stored variant and the lookups
  are performed, every call returns the stored variant and leaves the store as it is.
\<close>

lemma getOrAssignVariant_existing:
  assumes "filter (\<lambda>r. c_user_id r = u \<and> c_subscription_id r = sid) (cancellations d) = [r]"
      and "c_downsell_variant r = Some v"
      and "lookup_outcome e = Performed"
  shows "getOrAssignVariant e d u sid = (Inr v, d)"
  using assms by (simp add: getOrAssignVariant_def select_single_def)

lemma calls_existing:
  assumes "filter (\<lambda>r. c_user_id r = u \<and> c_subscription_id r = sid) (cancellations d) = [r]"
      and "c_downsell_variant r = Some v"
      and "\<forall>e \<in> set es. lookup_outcome e = Performed"
  shows "calls es d u sid = (replicate (length es) (Inr v), d)"
  using assms(3)
  by (induction es) (simp_all add: getOrAssignVariant_existing [OF assms(1,2)])

text \<open>
  From a store without a row for the pair, the first call draws the variant and stores
  it, and the later calls return it, when the lookups and the first insert are
  performed.
\<close>

lemma getOrAssignVariant_first:
  assumes "filter (\<lambda>r. c_user_id r = u \<and> c_subscription_id r = sid) (cancellations d) = []"
      and "lookup_outcome e = Performed"
      and "insert_outcome e = Performed"
  shows "getOrAssignVariant e d u sid =
           (Inr (if unat (randomBytes e) mod 2 = 0 then Variant_A else Variant_B),
            d\<lparr>cancellations := cancellations d @
                 [\<lparr>c_user_id = u, c_subscription_id = sid,
                   c_downsell_variant =
                     Some (if unat (randomBytes e) mod 2 = 0 then Variant_A else Variant_B),
                   c_reason = JNull, c_accepted_downsell = None\<rparr>]\<rparr>)"
  using assms by (simp add: getOrAssignVariant_def select_single_def insert_row_def Let_def)

lemma calls_agree_with_first:
  assumes "filter (\<lambda>r. c_user_id r = u \<and> c_subscription_id r = sid) (cancellations d) = []"
      and "lookup_outcome e = Performed"
      and "insert_outcome e = Performed"
      and "\<forall>e' \<in> set es. lookup_outcome e' = Performed"
  shows "fst (calls (e # es) d u sid) =
           replicate (Suc (length es))
             (Inr (if unat (randomBytes e) mod 2 = 0 then Variant_A else Variant_B))"
proof -
  let ?v = "if unat (randomBytes e) mod 2 = 0 then Variant_A else Variant_B"
  let ?row = "\<lparr>c_user_id = u, c_subscription_id = sid, c_downsell_variant = Some ?v,
               c_reason = JNull, c_accepted_downsell = None\<rparr>"
  let ?d = "d\<lparr>cancellations := cancellations d @ [?row]\<rparr>"
  have first: "getOrAssignVariant e d u sid = (Inr ?v, ?d)"
    using getOrAssignVariant_first [OF assms(1,2,3)] .
  have one: "filter (\<lambda>r. c_user_id r = u \<and> c_subscription_id r = sid) (cancellations ?d) = [?row]"
    using assms(1) by simp
  have rest: "calls es ?d u sid = (replicate (length es) (Inr ?v), ?d)"
    using calls_existing [OF one _ assms(4)] by simp
  show ?thesis
    using first rest by simp
qed

subsection \<open>The branches of the handler\<close>

lemma truthy_field_body:
  "truthy (field b k) \<Longrightarrow> b \<noteq> JUndefined \<and> b \<noteq> JNull"
  by (auto simp add: field_def truthy_def)

lemma POST_no_body: "POST e d None = (internal_server_error, d)"
  by (simp add: POST_def)

lemma POST_null_body:
  "b = JUndefined \<or> b = JNull \<Longrightarrow> POST e d (Some b) = (internal_server_error, d)"
  by (auto simp add: POST_def)

lemma POST_missing_identity:
  "b \<noteq> JUndefined \<Longrightarrow> b \<noteq> JNull \<Longrightarrow>
   \<not> truthy (field b (js ''user_id'')) \<or> \<not> truthy (field b (js ''subscription_id'')) \<Longrightarrow>
   POST e d (Some b) = (bad_request ''Missing user_id or subscription_id'', d)"
  by (simp add: POST_def Let_def)

lemma POST_get_variant:
  "truthy (field b (js ''user_id'')) \<Longrightarrow> truthy (field b (js ''subscription_id'')) \<Longrightarrow>
   truthy (field b (js ''get_variant'')) \<Longrightarrow>
   POST e d (Some b) =
     (case getOrAssignVariant e d (field b (js ''user_id'')) (field b (js ''subscription_id'')) of
        (Inl x, d') \<Rightarrow> (internal_server_error, d')
      | (Inr v, d') \<Rightarrow> (\<lparr>status = 200, success = True, message = None, variant = Some v\<rparr>, d'))"
  using truthy_field_body [of b "js ''user_id''"] by (simp add: POST_def Let_def)

lemma POST_not_boolean:
  "truthy (field b (js ''user_id'')) \<Longrightarrow> truthy (field b (js ''subscription_id'')) \<Longrightarrow>
   \<not> truthy (field b (js ''get_variant'')) \<Longrightarrow>
   \<not> is_boolean (field b (js ''accepted_downsell'')) \<Longrightarrow>
   POST e d (Some b) = (bad_request ''accepted_downsell must be boolean'', d)"
  using truthy_field_body [of b "js ''user_id''"] by (simp add: POST_def Let_def)

lemma POST_reason_not_string:
  "truthy (field b (js ''user_id'')) \<Longrightarrow> truthy (field b (js ''subscription_id'')) \<Longrightarrow>
   \<not> truthy (field b (js ''get_variant'')) \<Longrightarrow>
   is_boolean (field b (js ''accepted_downsell'')) \<Longrightarrow>
   truthy (field b (js ''reason'')) \<Longrightarrow> \<not> is_string (field b (js ''reason'')) \<Longrightarrow>
   POST e d (Some b) = (bad_request ''reason must be string'', d)"
  using truthy_field_body [of b "js ''user_id''"] by (simp add: POST_def Let_def)

lemma POST_update:
  "truthy (field b (js ''user_id'')) \<Longrightarrow> truthy (field b (js ''subscription_id'')) \<Longrightarrow>
   \<not> truthy (field b (js ''get_variant'')) \<Longrightarrow>
   is_boolean (field b (js ''accepted_downsell'')) \<Longrightarrow>
   \<not> (truthy (field b (js ''reason'')) \<and> \<not> is_string (field b (js ''reason''))) \<Longrightarrow>
   POST e d (Some b) =
     (case update_cancellation (update_outcome e) (cancellations d)
             (field b (js ''user_id'')) (field b (js ''subscription_id''))
             (truthy (field b (js ''accepted_downsell''))) (field b (js ''reason'')) of
        Inl x \<Rightarrow> (internal_server_error, d)
      | Inr rows \<Rightarrow>
          (if truthy (field b (js ''accepted_downsell''))
           then (\<lparr>status = 200, success = True, message = None, variant = None\<rparr>,
                 d\<lparr>cancellations := rows\<rparr>)
           else (case update_subscription (status_outcome e) (subscriptions d)
                        (field b (js ''subscription_id'')) Pending_cancellation (now e) of
                   Inl x \<Rightarrow> (internal_server_error, d\<lparr>cancellations := rows\<rparr>)
                 | Inr subs \<Rightarrow>
                     (\<lparr>status = 200, success = True, message = None, variant = None\<rparr>,
                      d\<lparr>cancellations := rows, subscriptions := subs\<rparr>))))"
  using truthy_field_body [of b "js ''user_id''"] by (auto simp add: POST_def Let_def)

lemma POST_get_variant_status:
  "truthy (field b (js ''user_id'')) \<Longrightarrow> truthy (field b (js ''subscription_id'')) \<Longrightarrow>
   truthy (field b (js ''get_variant'')) \<Longrightarrow>
   status (fst (POST e d (Some b))) \<noteq> 400"
  by (simp add: POST_get_variant internal_server_error_def split: prod.splits sum.splits)

lemma POST_update_status:
  "truthy (field b (js ''user_id'')) \<Longrightarrow> truthy (field b (js ''subscription_id'')) \<Longrightarrow>
   \<not> truthy (field b (js ''get_variant'')) \<Longrightarrow>
   is_boolean (field b (js ''accepted_downsell'')) \<Longrightarrow>
   \<not> (truthy (field b (js ''reason'')) \<and> \<not> is_string (field b (js ''reason''))) \<Longrightarrow>
   status (fst (POST e d (Some b))) \<noteq> 400"
  by (simp add: POST_update internal_server_error_def split: sum.splits)

subsection \<open>Rejected requests\<close>

text \<open>
  Claim C8, as amended. For a body that parses to a JSON value other than null, the
  handler answers with status 400 exactly when \<^verbatim>\<open>user_id\<close> or \<^verbatim>\<open>subscription_id\<close>
  is falsy (missing, null, false, zero or the empty string), or, for a request whose
  \<^verbatim>\<open>get_variant\<close> is falsy, when \<^verbatim>\<open>accepted_downsell\<close> is not a boolean or
  \<^verbatim>\<open>reason\<close> is truthy and not a string. A falsy reason of any type is accepted. A
  body that is missing or null is answered with 500. Every answer with status 400 has
  \<open>success\<close> false and leaves the store unchanged.
\<close>

theorem POST_bad_request:
  "(status (fst (POST e d body)) = 400 \<longleftrightarrow>
      (case body of
         None \<Rightarrow> False
       | Some b \<Rightarrow>
           b \<noteq> JUndefined \<and> b \<noteq> JNull \<and>
           (\<not> truthy (field b (js ''user_id'')) \<or>
            \<not> truthy (field b (js ''subscription_id'')) \<or>
            (\<not> truthy (field b (js ''get_variant'')) \<and>
             (\<not> is_boolean (field b (js ''accepted_downsell'')) \<or>
              (truthy (field b (js ''reason'')) \<and> \<not> is_string (field b (js ''reason'')))))))) \<and>
   (status (fst (POST e d body)) = 400 \<longrightarrow>
      \<not> success (fst (POST e d body)) \<and> snd (POST e d body) = d)"
proof (cases body)
  case None
  then show ?thesis by (simp add: POST_no_body internal_server_error_def)
next
  case (Some b)
  show ?thesis
  proof (cases "b = JUndefined \<or> b = JNull")
    case True
    then show ?thesis using Some by (auto simp add: POST_null_body internal_server_error_def)
  next
    case nb: False
    show ?thesis
    proof (cases "\<not> truthy (field b (js ''user_id'')) \<or>
                  \<not> truthy (field b (js ''subscription_id''))")
      case True
      then show ?thesis using Some nb by (auto simp add: POST_missing_identity bad_request_def)
    next
      case ids: False
      show ?thesis
      proof (cases "truthy (field b (js ''get_variant''))")
        case True
        then show ?thesis using Some nb ids POST_get_variant_status [of b e d] by simp
      next
        case gv: False
        show ?thesis
        proof (cases "is_boolean (field b (js ''accepted_downsell''))")
          case False
          then show ?thesis using Some nb ids gv by (simp add: POST_not_boolean bad_request_def)
        next
          case ab: True
          show ?thesis
          proof (cases "truthy (field b (js ''reason'')) \<and>
                        \<not> is_string (field b (js ''reason''))")
            case True
            then show ?thesis using Some nb ids gv ab
              by (simp add: POST_reason_not_string bad_request_def)
          next
            case False
            then show ?thesis using Some nb ids gv ab POST_update_status [of b e d] by simp
          qed
        qed
      qed
    qed
  qed
qed

theorem POST_bad_request_witness:
  "status (fst (POST
     \<lparr>lookup_outcome = Performed, insert_outcome = Performed,
      update_outcome = Performed, status_outcome = Performed, randomBytes = 0, now = 0\<rparr>
     \<lparr>cancellations = [], subscriptions = []\<rparr>
     (Some (JObj [(js ''user_id'', JStr (js ''u1'')), (js ''subscription_id'', JStr (js ''s1'')),
                  (js ''accepted_downsell'', JBool True), (js ''reason'', JNum 5)])))) = 400 \<and>
   \<not> success (fst (POST
     \<lparr>lookup_outcome = Performed, insert_outcome = Performed,
      update_outcome = Performed, status_outcome = Performed, randomBytes = 0, now = 0\<rparr>
     \<lparr>cancellations = [], subscriptions = []\<rparr>
     (Some (JObj [(js ''user_id'', JStr (js ''u1'')), (js ''subscription_id'', JStr (js ''s1'')),
                  (js ''accepted_downsell'', JBool True), (js ''reason'', JNum 5)])))) \<and>
   snd (POST
     \<lparr>lookup_outcome = Performed, insert_outcome = Performed,
      update_outcome = Performed, status_outcome = Performed, randomBytes = 0, now = 0\<rparr>
     \<lparr>cancellations = [], subscriptions = []\<rparr>
     (Some (JObj [(js ''user_id'', JStr (js ''u1'')), (js ''subscription_id'', JStr (js ''s1'')),
                  (js ''accepted_downsell'', JBool True), (js ''reason'', JNum 5)]))) =
     \<lparr>cancellations = [], subscriptions = []\<rparr>"
  using POST_bad_request
          [of "\<lparr>lookup_outcome = Performed, insert_outcome = Performed,
                update_outcome = Performed, status_outcome = Performed,
                randomBytes = 0, now = 0\<rparr>"
              "\<lparr>cancellations = [], subscriptions = []\<rparr>"
              "Some (JObj [(js ''user_id'', JStr (js ''u1'')),
                           (js ''subscription_id'', JStr (js ''s1'')),
                           (js ''accepted_downsell'', JBool True), (js ''reason'', JNum 5)])"]
  by (simp add: field_def truthy_def is_boolean_def is_string_def js_def)

text \<open>
  The claim as first stated rejects every reason that is present and not a string. A
  reason \<^verbatim>\<open>false\<close> is present and no string, and the request is answered with 200.
\<close>

theorem POST_falsy_reason_counterexample:
  "field (JObj [(js ''user_id'', JStr (js ''u1'')), (js ''subscription_id'', JStr (js ''s1'')),
                (js ''accepted_downsell'', JBool True), (js ''reason'', JBool False)])
      (js ''reason'') = JBool False \<and>
   status (fst (POST
     \<lparr>lookup_outcome = Performed, insert_outcome = Performed,
      update_outcome = Performed, status_outcome = Performed, randomBytes = 0, now = 0\<rparr>
     \<lparr>cancellations = [], subscriptions = []\<rparr>
     (Some (JObj [(js ''user_id'', JStr (js ''u1'')), (js ''subscription_id'', JStr (js ''s1'')),
                  (js ''accepted_downsell'', JBool True), (js ''reason'', JBool False)])))) = 200"
  by (simp add: POST_def Let_def field_def truthy_def is_boolean_def is_string_def js_def
        update_cancellation_def)

subsection \<open>Accepted submissions\<close>

text \<open>
  Claim C9, as amended. For a request with a truthy identity pair, a falsy
  \<^verbatim>\<open>get_variant\<close>, a boolean \<^verbatim>\<open>accepted_downsell\<close> and a reason that is falsy or a
  string, whose storage updates are performed, the handler writes
  \<^verbatim>\<open>accepted_downsell\<close> and the reason (when the request has one) to the cancellation
  rows of the pair and answers 200 with \<open>success\<close> true. When \<^verbatim>\<open>accepted_downsell\<close>
  is false it sets the status of the subscription to \<^verbatim>\<open>pending_cancellation\<close>; when
  it is true the subscriptions are unchanged.
\<close>

theorem POST_submission:
  assumes "truthy (field b (js ''user_id''))"
      and "truthy (field b (js ''subscription_id''))"
      and "\<not> truthy (field b (js ''get_variant''))"
      and "field b (js ''accepted_downsell'') = JBool a"
      and "\<not> (truthy (field b (js ''reason'')) \<and> \<not> is_string (field b (js ''reason'')))"
      and "update_outcome e = Performed"
      and "a \<or> status_outcome e = Performed"
  shows "POST e d (Some b) =
           (\<lparr>status = 200, success = True, message = None, variant = None\<rparr>,
            d\<lparr>cancellations :=
                 map (\<lambda>r. if c_user_id r = field b (js ''user_id'') \<and>
                              c_subscription_id r = field b (js ''subscription_id'')
                           then r\<lparr>c_accepted_downsell := Some a,
                                  c_reason := (if field b (js ''reason'') = JUndefined
                                               then c_reason r else field b (js ''reason''))\<rparr>
                           else r) (cancellations d),
               subscriptions :=
                 (if a then subscriptions d
                  else map (\<lambda>r. if s_id r = field b (js ''subscription_id'')
                                 then r\<lparr>s_status := Pending_cancellation, s_updated_at := now e\<rparr>
                                 else r) (subscriptions d))\<rparr>)"
proof -
  have bool: "is_boolean (field b (js ''accepted_downsell''))"
    and tr: "truthy (field b (js ''accepted_downsell'')) = a"
    using assms(4) by (simp_all add: is_boolean_def truthy_def)
  have "POST e d (Some b) =
     (case update_cancellation (update_outcome e) (cancellations d)
             (field b (js ''user_id'')) (field b (js ''subscription_id''))
             (truthy (field b (js ''accepted_downsell''))) (field b (js ''reason'')) of
        Inl x \<Rightarrow> (internal_server_error, d)
      | Inr rows \<Rightarrow>
          (if truthy (field b (js ''accepted_downsell''))
           then (\<lparr>status = 200, success = True, message = None, variant = None\<rparr>,
                 d\<lparr>cancellations := rows\<rparr>)
           else (case update_subscription (status_outcome e) (subscriptions d)
                        (field b (js ''subscription_id'')) Pending_cancellation (now e) of
                   Inl x \<Rightarrow> (internal_server_error, d\<lparr>cancellations := rows\<rparr>)
                 | Inr subs \<Rightarrow>
                     (\<lparr>status = 200, success = True, message = None, variant = None\<rparr>,
                      d\<lparr>cancellations := rows, subscriptions := subs\<rparr>))))"
    using assms(1,2,3) bool assms(5) by (rule POST_update)
  then show ?thesis
    using assms(6,7) tr
    by (cases a) (simp_all add: update_cancellation_def update_subscription_def)
qed

theorem POST_submission_witness:
  "POST
     \<lparr>lookup_outcome = Performed, insert_outcome = Performed,
      update_outcome = Performed, status_outcome = Performed, randomBytes = 0, now = 42\<rparr>
     \<lparr>cancellations =
        [\<lparr>c_user_id = JStr (js ''u1''), c_subscription_id = JStr (js ''s1''),
          c_downsell_variant = Some Variant_B, c_reason = JNull, c_accepted_downsell = None\<rparr>],
      subscriptions = [\<lparr>s_id = JStr (js ''s1''), s_status = Active, s_updated_at = 7\<rparr>]\<rparr>
     (Some (JObj [(js ''user_id'', JStr (js ''u1'')), (js ''subscription_id'', JStr (js ''s1'')),
                  (js ''accepted_downsell'', JBool False),
                  (js ''reason'', JStr (js ''Completed visa support flow''))])) =
   (\<lparr>status = 200, success = True, message = None, variant = None\<rparr>,
    \<lparr>cancellations =
        [\<lparr>c_user_id = JStr (js ''u1''), c_subscription_id = JStr (js ''s1''),
          c_downsell_variant = Some Variant_B,
          c_reason = JStr (js ''Completed visa support flow''),
          c_accepted_downsell = Some False\<rparr>],
      subscriptions =
        [\<lparr>s_id = JStr (js ''s1''), s_status = Pending_cancellation, s_updated_at = 42\<rparr>]\<rparr>)"
  using POST_submission
          [where a = False
             and e = "\<lparr>lookup_outcome = Performed, insert_outcome = Performed,
                       update_outcome = Performed, status_outcome = Performed,
                       randomBytes = 0, now = 42\<rparr>"
             and d = "\<lparr>cancellations =
                        [\<lparr>c_user_id = JStr (js ''u1''), c_subscription_id = JStr (js ''s1''),
                          c_downsell_variant = Some Variant_B, c_reason = JNull,
                          c_accepted_downsell = None\<rparr>],
                       subscriptions =
                        [\<lparr>s_id = JStr (js ''s1''), s_status = Active, s_updated_at = 7\<rparr>]\<rparr>"
             and b = "JObj [(js ''user_id'', JStr (js ''u1'')),
                            (js ''subscription_id'', JStr (js ''s1'')),
                            (js ''accepted_downsell'', JBool False),
                            (js ''reason'', JStr (js ''Completed visa support flow''))]"]
  by (simp add: field_def truthy_def is_string_def js_def)

text \<open>
  The claim as first stated asks only for a non-empty identity pair and a boolean
  \<^verbatim>\<open>accepted_downsell\<close>. Such a request with an array as its reason is answered
  with 400: no row is updated and the subscription stays active.
\<close>

theorem POST_array_reason_counterexample:
  "POST
     \<lparr>lookup_outcome = Performed, insert_outcome = Performed,
      update_outcome = Performed, status_outcome = Performed, randomBytes = 0, now = 42\<rparr>
     \<lparr>cancellations =
        [\<lparr>c_user_id = JStr (js ''u1''), c_subscription_id = JStr (js ''s1''),
          c_downsell_variant = Some Variant_B, c_reason = JNull, c_accepted_downsell = None\<rparr>],
      subscriptions = [\<lparr>s_id = JStr (js ''s1''), s_status = Active, s_updated_at = 7\<rparr>]\<rparr>
     (Some (JObj [(js ''user_id'', JStr (js ''u1'')), (js ''subscription_id'', JStr (js ''s1'')),
                  (js ''accepted_downsell'', JBool False), (js ''reason'', JArr [])])) =
   (\<lparr>status = 400, success = False, message = Some (js ''reason must be string''),
     variant = None\<rparr>,
    \<lparr>cancellations =
        [\<lparr>c_user_id = JStr (js ''u1''), c_subscription_id = JStr (js ''s1''),
          c_downsell_variant = Some Variant_B, c_reason = JNull, c_accepted_downsell = None\<rparr>],
      subscriptions = [\<lparr>s_id = JStr (js ''s1''), s_status = Active, s_updated_at = 7\<rparr>]\<rparr>)"
  by (simp add: POST_def Let_def field_def truthy_def is_boolean_def is_string_def js_def
        bad_request_def)

text \<open>
  An update that the storage client answers with an error is not noticed either: the
  handler answers 200 and the store is as before.
\<close>

lemma POST_submission_reported_errors:
  assumes "truthy (field b (js ''user_id''))"
      and "truthy (field b (js ''subscription_id''))"
      and "\<not> truthy (field b (js ''get_variant''))"
      and "is_boolean (field b (js ''accepted_downsell''))"
      and "\<not> (truthy (field b (js ''reason'')) \<and> \<not> is_string (field b (js ''reason'')))"
      and "update_outcome e = Reported_error"
      and "status_outcome e = Reported_error"
  shows "POST e d (Some b) =
           (\<lparr>status = 200, success = True, message = None, variant = None\<rparr>, d)"
  using POST_update [OF assms(1-5), of e d] assms(6,7)
  by (simp add: update_cancellation_def update_subscription_def)

subsection \<open>Priority of the variant request\<close>

text \<open>
  Claim C10, as amended. For a body with a truthy \<^verbatim>\<open>get_variant\<close> and a truthy
  identity pair, whatever \<^verbatim>\<open>accepted_downsell\<close> and \<^verbatim>\<open>reason\<close> it carries, the
  handler takes the variant branch and nothing of the submission branch. Its answer is
  the result of \<^verbatim>\<open>getOrAssignVariant\<close> for the pair: 200 with \<open>success\<close> true and
  that variant and nothing else (the stored variant of the pair, when the lookup finds
  its row), or 500 exactly when a storage call of the assignment rejects. In every case
  the subscriptions are unchanged, and the cancellation rows are unchanged or extended
  by the one new row that holds the returned variant: no row is updated.
\<close>

theorem POST_get_variant_priority:
  assumes "truthy (field b (js ''user_id''))"
      and "truthy (field b (js ''subscription_id''))"
      and "truthy (field b (js ''get_variant''))"
  shows "POST e d (Some b) =
           (case getOrAssignVariant e d (field b (js ''user_id''))
                   (field b (js ''subscription_id'')) of
              (Inl x, d') \<Rightarrow> (internal_server_error, d')
            | (Inr v, d') \<Rightarrow>
                (\<lparr>status = 200, success = True, message = None, variant = Some v\<rparr>, d')) \<and>
         (fst (POST e d (Some b)) = internal_server_error \<longleftrightarrow>
            lookup_outcome e = Rejected \<or>
            (insert_outcome e = Rejected \<and>
             (\<forall>v. select_single (lookup_outcome e) (cancellations d)
                    (field b (js ''user_id'')) (field b (js ''subscription_id'')) \<noteq>
                  Inr (Some (Some v))))) \<and>
         (fst (POST e d (Some b)) = internal_server_error \<or>
          (\<exists>v. fst (POST e d (Some b)) =
                 \<lparr>status = 200, success = True, message = None, variant = Some v\<rparr>)) \<and>
         (\<forall>r v. lookup_outcome e = Performed \<and>
                filter (\<lambda>r. c_user_id r = field b (js ''user_id'') \<and>
                             c_subscription_id r = field b (js ''subscription_id''))
                  (cancellations d) = [r] \<and>
                c_downsell_variant r = Some v \<longrightarrow>
            POST e d (Some b) =
              (\<lparr>status = 200, success = True, message = None, variant = Some v\<rparr>, d)) \<and>
         subscriptions (snd (POST e d (Some b))) = subscriptions d \<and>
         (cancellations (snd (POST e d (Some b))) = cancellations d \<or>
          (\<exists>v. fst (POST e d (Some b)) =
                 \<lparr>status = 200, success = True, message = None, variant = Some v\<rparr> \<and>
               cancellations (snd (POST e d (Some b))) =
                 cancellations d @
                   [\<lparr>c_user_id = field b (js ''user_id''),
                     c_subscription_id = field b (js ''subscription_id''),
                     c_downsell_variant = Some v, c_reason = JNull,
                     c_accepted_downsell = None\<rparr>]))"
proof -
  let ?u = "field b (js ''user_id'')" and ?s = "field b (js ''subscription_id'')"
  obtain r d' where g: "getOrAssignVariant e d ?u ?s = (r, d')"
    by (cases "getOrAssignVariant e d ?u ?s")
  have P: "POST e d (Some b) =
     (case getOrAssignVariant e d ?u ?s of
        (Inl x, d') \<Rightarrow> (internal_server_error, d')
      | (Inr v, d') \<Rightarrow>
          (\<lparr>status = 200, success = True, message = None, variant = Some v\<rparr>, d'))"
    using POST_get_variant [OF assms, of e d] .
  have P': "POST e d (Some b) =
     (case r of Inl x \<Rightarrow> (internal_server_error, d')
      | Inr v \<Rightarrow> (\<lparr>status = 200, success = True, message = None, variant = Some v\<rparr>, d'))"
    using P g by (simp split: sum.splits)
  have snd_eq: "snd (POST e d (Some b)) = d'"
    using P' by (simp split: sum.splits)
  have fst_ise: "fst (POST e d (Some b)) = internal_server_error \<longleftrightarrow> (\<exists>x. r = Inl x)"
    using P' by (cases r) (simp_all add: internal_server_error_def)
  have fst_ok: "fst (POST e d (Some b)) =
      \<lparr>status = 200, success = True, message = None, variant = Some v\<rparr> \<longleftrightarrow> r = Inr v" for v
    using P' by (cases r) (simp_all add: internal_server_error_def)
  have rej: "(\<exists>x. r = Inl x) \<longleftrightarrow>
     lookup_outcome e = Rejected \<or>
     (insert_outcome e = Rejected \<and>
      (\<forall>v. select_single (lookup_outcome e) (cancellations d) ?u ?s \<noteq> Inr (Some (Some v))))"
    using getOrAssignVariant_Inl_iff [of e d ?u ?s] g by simp
  have frame: "subscriptions d' = subscriptions d \<and>
      (cancellations d' = cancellations d \<or>
       (\<exists>v. r = Inr v \<and> cancellations d' = cancellations d @
              [\<lparr>c_user_id = ?u, c_subscription_id = ?s, c_downsell_variant = Some v,
                c_reason = JNull, c_accepted_downsell = None\<rparr>]))"
    using getOrAssignVariant_frame [of e d ?u ?s] g by simp
  have stored: "POST e d (Some b) =
      (\<lparr>status = 200, success = True, message = None, variant = Some v\<rparr>, d)"
    if "lookup_outcome e = Performed"
      and "filter (\<lambda>r. c_user_id r = ?u \<and> c_subscription_id r = ?s) (cancellations d) = [r0]"
      and "c_downsell_variant r0 = Some v" for r0 v
    using P getOrAssignVariant_existing [OF that(2,3,1)] by simp
  have either: "(\<exists>x. r = Inl x) \<or> (\<exists>v. r = Inr v)"
    by (cases r) simp_all
  show ?thesis
    unfolding snd_eq fst_ise fst_ok
    using P rej frame stored either by blast
qed

text \<open>
  The pair has the variant A stored and the random byte would draw B; the body also
  carries the fields of a submission. The answer is A, and the store is as before.
\<close>

theorem POST_get_variant_priority_witness:
  "POST
     \<lparr>lookup_outcome = Performed, insert_outcome = Performed,
      update_outcome = Performed, status_outcome = Performed, randomBytes = 3, now = 42\<rparr>
     \<lparr>cancellations =
        [\<lparr>c_user_id = JStr (js ''u1''), c_subscription_id = JStr (js ''s1''),
          c_downsell_variant = Some Variant_A, c_reason = JNull, c_accepted_downsell = None\<rparr>],
      subscriptions = [\<lparr>s_id = JStr (js ''s1''), s_status = Active, s_updated_at = 7\<rparr>]\<rparr>
     (Some (JObj [(js ''user_id'', JStr (js ''u1'')), (js ''subscription_id'', JStr (js ''s1'')),
                  (js ''get_variant'', JBool True), (js ''accepted_downsell'', JBool False),
                  (js ''reason'', JStr (js ''leaving''))])) =
   (\<lparr>status = 200, success = True, message = None, variant = Some Variant_A\<rparr>,
    \<lparr>cancellations =
        [\<lparr>c_user_id = JStr (js ''u1''), c_subscription_id = JStr (js ''s1''),
          c_downsell_variant = Some Variant_A, c_reason = JNull, c_accepted_downsell = None\<rparr>],
      subscriptions = [\<lparr>s_id = JStr (js ''s1''), s_status = Active, s_updated_at = 7\<rparr>]\<rparr>)"
  using POST_get_variant_priority
          [where e = "\<lparr>lookup_outcome = Performed, insert_outcome = Performed,
                       update_outcome = Performed, status_outcome = Performed,
                       randomBytes = 3, now = 42\<rparr>"
             and d = "\<lparr>cancellations =
                        [\<lparr>c_user_id = JStr (js ''u1''), c_subscription_id = JStr (js ''s1''),
                          c_downsell_variant = Some Variant_A, c_reason = JNull,
                          c_accepted_downsell = None\<rparr>],
                       subscriptions =
                        [\<lparr>s_id = JStr (js ''s1''), s_status = Active, s_updated_at = 7\<rparr>]\<rparr>"
             and b = "JObj [(js ''user_id'', JStr (js ''u1'')),
                            (js ''subscription_id'', JStr (js ''s1'')),
                            (js ''get_variant'', JBool True),
                            (js ''accepted_downsell'', JBool False),
                            (js ''reason'', JStr (js ''leaving''))]"]
  by (simp add: field_def truthy_def js_def getOrAssignVariant_def select_single_def)

text \<open>
  The claim as first stated has every such request answered with the variant. When the
  lookup rejects, the \<^verbatim>\<open>catch\<close> answers 500.
\<close>

theorem POST_get_variant_rejected_counterexample:
  "POST
     \<lparr>lookup_outcome = Rejected, insert_outcome = Performed,
      update_outcome = Performed, status_outcome = Performed, randomBytes = 0, now = 42\<rparr>
     \<lparr>cancellations = [], subscriptions = []\<rparr>
     (Some (JObj [(js ''user_id'', JStr (js ''u1'')), (js ''subscription_id'', JStr (js ''s1'')),
                  (js ''get_variant'', JBool True)])) =
   (\<lparr>status = 500, success = False, message = Some (js ''Internal server error''),
     variant = None\<rparr>,
    \<lparr>cancellations = [], subscriptions = []\<rparr>)"
  by (simp add: POST_def Let_def field_def truthy_def js_def getOrAssignVariant_def
        select_single_def internal_server_error_def)

end
